theory Spec2Isabelle
  imports Main
begin

section \<open>Values, sessions and the trial component record\<close>

text \<open>
  Field values are dynamically typed in the source; \<open>PyNone\<close> is Python's \<open>None\<close>,
  the value every declared field has until it is assigned.
\<close>

datatype pyval =
    PyNone
  | PyStr string
  | PyInt int
  | PyList "pyval list"
  | PyDict "(string \<times> pyval) list"

text \<open>
  Modelled from the spec: the session/transport object is a collaborator that is not part
  of the source file. The spec gives it the capability of issuing named remote operations
  and lets an operation fail when the caller lacks permission for it; a session is
  modelled by the operations its caller may issue.
\<close>

record Session =
  permitted_operations :: "string list"

text \<open>
  The class \<open>LineageTrialComponent\<close>: the nineteen attributes it declares, each with the
  class-level default \<open>None\<close>, and the \<open>sagemaker_session\<close> every method reads.
\<close>

record LineageTrialComponent =
  sagemaker_session :: Session
  trial_component_name :: pyval
  trial_component_arn :: pyval
  display_name :: pyval
  source :: pyval
  status :: pyval
  start_time :: pyval
  end_time :: pyval
  creation_time :: pyval
  created_by :: pyval
  last_modified_time :: pyval
  last_modified_by :: pyval
  parameters :: pyval
  input_artifacts :: pyval
  output_artifacts :: pyval
  metrics :: pyval
  parameters_to_remove :: pyval
  input_artifacts_to_remove :: pyval
  output_artifacts_to_remove :: pyval
  tags :: pyval

definition boto_create_method :: string where
  "boto_create_method = ''create_trial_component''"

definition boto_load_method :: string where
  "boto_load_method = ''describe_trial_component''"

definition boto_update_method :: string where
  "boto_update_method = ''update_trial_component''"

definition boto_delete_method :: string where
  "boto_delete_method = ''delete_trial_component''"

definition boto_update_members :: "string list" where
  "boto_update_members =
     [''trial_component_name'',
      ''display_name'',
      ''status'',
      ''start_time'',
      ''end_time'',
      ''parameters'',
      ''input_artifacts'',
      ''output_artifacts'',
      ''parameters_to_remove'',
      ''input_artifacts_to_remove'',
      ''output_artifacts_to_remove'']"

definition boto_delete_members :: "string list" where
  "boto_delete_members = [''trial_component_name'']"

section \<open>The lineage query vocabulary\<close>

text \<open>
  Modelled from the spec: the enumerations and the filter of the lineage query module are
  imported by the source file, not declared in it. The spec names the entity kind
  ARTIFACT, the source kinds DATASET and MODEL ("at least" these, so one more constructor
  stands for the members it does not name) and the three directions.
\<close>

datatype LineageEntityEnum = ARTIFACT | OtherEntity string

datatype LineageSourceEnum = DATASET | MODEL | OtherSource string

datatype LineageQueryDirectionEnum = ASCENDANTS | DESCENDANTS | BOTH

text \<open>
  Modelled from the spec: \<open>LineageFilter\<close>, by the two keyword arguments the source file
  passes to its constructor.
\<close>

record LineageFilter =
  entities :: "LineageEntityEnum list"
  sources :: "LineageSourceEnum list"

text \<open>The keyword arguments of one call of \<open>LineageQuery.query\<close>.\<close>

record query_request =
  start_arns :: "pyval list"
  query_filter :: LineageFilter
  direction :: LineageQueryDirectionEnum
  include_edges :: bool

text \<open>
  Modelled from the spec: the result of a query, by the attribute the source file reads.
\<close>

record 'v LineageQueryResult =
  vertices :: "'v list"

text \<open>One entry of the \<open>Tags\<close> member of a \<open>list_tags\<close> response.\<close>

record Tag =
  Key :: string
  Value :: string

section \<open>Collaborators\<close>

text \<open>
  The remote calls the source file makes are parameters of the model. Each takes the
  state of the world outside the record (\<open>'w\<close>) and returns the new one, with either the
  error it raises (\<open>Inl\<close>) or its value (\<open>Inr\<close>); nothing is assumed about them.
  \<^item> \<open>list_tags s arn\<close> is \<open>s.sagemaker_client.list_tags(ResourceArn=arn)["Tags"]\<close>;
  \<^item> \<open>lineage_query s req\<close> is \<open>LineageQuery(s).query(**req)\<close>;
  \<^item> \<open>to_lineage_object v\<close> is \<open>v.to_lineage_object()\<close>;
  \<^item> \<open>invoke s name payload\<close> is the remote operation \<open>name\<close> issued through \<open>s\<close>, its
    keyword arguments and its response being dictionaries from member names to values;
  \<^item> \<open>default_session\<close> is the session created when none is given.
\<close>

record ('w, 'e, 'v, 'a) collaborators =
  list_tags :: "Session \<Rightarrow> pyval \<Rightarrow> 'w \<Rightarrow> ('e + Tag list) \<times> 'w"
  lineage_query :: "Session \<Rightarrow> query_request \<Rightarrow> 'w \<Rightarrow> ('e + 'v LineageQueryResult) \<times> 'w"
  to_lineage_object :: "'v \<Rightarrow> 'w \<Rightarrow> ('e + 'a) \<times> 'w"
  invoke :: "Session \<Rightarrow> string \<Rightarrow> (string \<rightharpoonup> pyval) \<Rightarrow> 'w \<Rightarrow> ('e + (string \<rightharpoonup> pyval)) \<times> 'w"
  default_session :: Session

section \<open>pipeline_execution_arn\<close>

text \<open>
  The \<open>for\<close> loop over the tags: the value of the first tag whose key is the reserved
  one, \<open>None\<close> when the loop ends without a match.
\<close>

fun scan_tags :: "Tag list \<Rightarrow> string option" where
  "scan_tags [] = None"
| "scan_tags (tag # rest) =
     (if Key tag = ''sagemaker:pipeline-execution-arn'' then Some (Value tag)
      else scan_tags rest)"

text \<open>
  A method returns its outcome, the record as the method leaves it, and the world.
\<close>

definition pipeline_execution_arn ::
  "('w, 'e, 'v, 'a) collaborators \<Rightarrow> LineageTrialComponent \<Rightarrow> 'w
     \<Rightarrow> ('e + string option) \<times> LineageTrialComponent \<times> 'w" where
  "pipeline_execution_arn env self w =
     (case list_tags env (sagemaker_session self) (trial_component_arn self) w of
        (Inl e, w') \<Rightarrow> (Inl e, self, w')
      | (Inr tags', w') \<Rightarrow> (Inr (scan_tags tags'), self, w'))"

section \<open>dataset_artifacts and models\<close>

text \<open>
  The list comprehension \<open>[vertex.to_lineage_object() for vertex in vertices]\<close>:
  the vertices are converted from left to right, and the first conversion that raises
  ends the comprehension with its error.
\<close>

fun to_lineage_objects ::
  "('w, 'e, 'v, 'a) collaborators \<Rightarrow> 'v list \<Rightarrow> 'w \<Rightarrow> ('e + 'a list) \<times> 'w" where
  "to_lineage_objects env [] w = (Inr [], w)"
| "to_lineage_objects env (vertex # rest) w =
     (case to_lineage_object env vertex w of
        (Inl e, w') \<Rightarrow> (Inl e, w')
      | (Inr obj, w') \<Rightarrow>
          (case to_lineage_objects env rest w' of
             (Inl e, w'') \<Rightarrow> (Inl e, w'')
           | (Inr objs, w'') \<Rightarrow> (Inr (obj # objs), w'')))"

text \<open>
  The optional argument of both methods is \<open>None\<close> when the caller passes no direction
  (the default of the signature applies) and \<open>Some d\<close> when the caller passes \<open>d\<close>.
\<close>

definition dataset_artifacts ::
  "('w, 'e, 'v, 'a) collaborators \<Rightarrow> LineageQueryDirectionEnum option \<Rightarrow> LineageTrialComponent
     \<Rightarrow> 'w \<Rightarrow> ('e + 'a list) \<times> LineageTrialComponent \<times> 'w" where
  "dataset_artifacts env direction_arg self w =
     (let d = (case direction_arg of None \<Rightarrow> ASCENDANTS | Some given \<Rightarrow> given);
          filter' = \<lparr>entities = [ARTIFACT], sources = [DATASET]\<rparr>
      in case lineage_query env (sagemaker_session self)
                \<lparr>start_arns = [trial_component_arn self],
                 query_filter = filter',
                 direction = d,
                 include_edges = False\<rparr> w of
           (Inl e, w') \<Rightarrow> (Inl e, self, w')
         | (Inr query_result, w') \<Rightarrow>
             (case to_lineage_objects env (vertices query_result) w' of
                (r, w'') \<Rightarrow> (r, self, w'')))"

definition models ::
  "('w, 'e, 'v, 'a) collaborators \<Rightarrow> LineageQueryDirectionEnum option \<Rightarrow> LineageTrialComponent
     \<Rightarrow> 'w \<Rightarrow> ('e + 'a list) \<times> LineageTrialComponent \<times> 'w" where
  "models env direction_arg self w =
     (let d = (case direction_arg of None \<Rightarrow> DESCENDANTS | Some given \<Rightarrow> given);
          filter' = \<lparr>entities = [ARTIFACT], sources = [MODEL]\<rparr>
      in case lineage_query env (sagemaker_session self)
                \<lparr>start_arns = [trial_component_arn self],
                 query_filter = filter',
                 direction = d,
                 include_edges = False\<rparr> w of
           (Inl e, w') \<Rightarrow> (Inl e, self, w')
         | (Inr query_result, w') \<Rightarrow>
             (case to_lineage_objects env (vertices query_result) w' of
                (r, w'') \<Rightarrow> (r, self, w'')))"

text \<open>
  The spec's description of the two queries, in its own words, for the comparison with
  the two methods: one traversal of "identical shape" whose only parameter besides the
  direction is the source type of the filter.
\<close>

definition spec_artifacts_of_source ::
  "('w, 'e, 'v, 'a) collaborators \<Rightarrow> LineageSourceEnum \<Rightarrow> LineageQueryDirectionEnum
     \<Rightarrow> LineageTrialComponent \<Rightarrow> 'w \<Rightarrow> ('e + 'a list) \<times> LineageTrialComponent \<times> 'w" where
  "spec_artifacts_of_source env src d self w =
     (case lineage_query env (sagemaker_session self)
             \<lparr>start_arns = [trial_component_arn self],
              query_filter = \<lparr>entities = [ARTIFACT], sources = [src]\<rparr>,
              direction = d,
              include_edges = False\<rparr> w of
        (Inl e, w') \<Rightarrow> (Inl e, self, w')
      | (Inr query_result, w') \<Rightarrow>
          (case to_lineage_objects env (vertices query_result) w' of
             (r, w'') \<Rightarrow> (r, self, w'')))"

section \<open>Observing the remote calls\<close>

text \<open>
  To count the calls a method makes, the collaborators are wrapped so that every call is
  appended to a trace kept beside the world. The wrapper changes no answer.
\<close>

datatype 'v event =
    ListTagsCall Session pyval
  | QueryCall Session query_request
  | ConversionCall 'v
  | InvokeCall Session string "string \<rightharpoonup> pyval"

definition traced ::
  "('w, 'e, 'v, 'a) collaborators \<Rightarrow> ('w \<times> 'v event list, 'e, 'v, 'a) collaborators" where
  "traced env =
     \<lparr>list_tags = (\<lambda>s arn (w, tr).
        case list_tags env s arn w of (r, w') \<Rightarrow> (r, (w', tr @ [ListTagsCall s arn]))),
      lineage_query = (\<lambda>s req (w, tr).
        case lineage_query env s req w of (r, w') \<Rightarrow> (r, (w', tr @ [QueryCall s req]))),
      to_lineage_object = (\<lambda>v (w, tr).
        case to_lineage_object env v w of (r, w') \<Rightarrow> (r, (w', tr @ [ConversionCall v]))),
      invoke = (\<lambda>s name payload (w, tr).
        case invoke env s name payload w of
          (r, w') \<Rightarrow> (r, (w', tr @ [InvokeCall s name payload]))),
      default_session = default_session env\<rparr>"

fun query_calls :: "'v event list \<Rightarrow> (Session \<times> query_request) list" where
  "query_calls [] = []"
| "query_calls (QueryCall s req # es) = (s, req) # query_calls es"
| "query_calls (_ # es) = query_calls es"

fun conversion_calls :: "'v event list \<Rightarrow> 'v list" where
  "conversion_calls [] = []"
| "conversion_calls (ConversionCall v # es) = v # conversion_calls es"
| "conversion_calls (_ # es) = conversion_calls es"

fun invoke_calls :: "'v event list \<Rightarrow> (Session \<times> string \<times> (string \<rightharpoonup> pyval)) list" where
  "invoke_calls [] = []"
| "invoke_calls (InvokeCall s name payload # es) = (s, name, payload) # invoke_calls es"
| "invoke_calls (_ # es) = invoke_calls es"

section \<open>The record base mechanism and the remote store\<close>

text \<open>
  The declared attributes by name, in the order of the class body: what \<open>getattr\<close>
  reads for a declared name.
\<close>

definition members :: "LineageTrialComponent \<Rightarrow> (string \<times> pyval) list" where
  "members self =
     [(''trial_component_name'', trial_component_name self),
      (''trial_component_arn'', trial_component_arn self),
      (''display_name'', display_name self),
      (''source'', source self),
      (''status'', status self),
      (''start_time'', start_time self),
      (''end_time'', end_time self),
      (''creation_time'', creation_time self),
      (''created_by'', created_by self),
      (''last_modified_time'', last_modified_time self),
      (''last_modified_by'', last_modified_by self),
      (''parameters'', parameters self),
      (''input_artifacts'', input_artifacts self),
      (''output_artifacts'', output_artifacts self),
      (''metrics'', metrics self),
      (''parameters_to_remove'', parameters_to_remove self),
      (''input_artifacts_to_remove'', input_artifacts_to_remove self),
      (''output_artifacts_to_remove'', output_artifacts_to_remove self),
      (''tags'', tags self)]"

definition getattr_member :: "string \<Rightarrow> LineageTrialComponent \<Rightarrow> pyval option" where
  "getattr_member k self = map_of (members self) k"

text \<open>
  Attribute assignment \<open>self.k = v\<close> on a declared attribute. The class body declares
  all nineteen the same way, as plain class-level names with no property and no
  \<open>__setattr__\<close> of its own, so an assignment rebinds the attribute on the instance. A name
  the class does not declare is not a field of the record and leaves it as it is.
\<close>

definition setattr_member :: "string \<Rightarrow> pyval \<Rightarrow> LineageTrialComponent \<Rightarrow> LineageTrialComponent" where
  "setattr_member k v self =
     (if k = ''trial_component_name'' then self\<lparr>trial_component_name := v\<rparr>
      else if k = ''trial_component_arn'' then self\<lparr>trial_component_arn := v\<rparr>
      else if k = ''display_name'' then self\<lparr>display_name := v\<rparr>
      else if k = ''source'' then self\<lparr>source := v\<rparr>
      else if k = ''status'' then self\<lparr>status := v\<rparr>
      else if k = ''start_time'' then self\<lparr>start_time := v\<rparr>
      else if k = ''end_time'' then self\<lparr>end_time := v\<rparr>
      else if k = ''creation_time'' then self\<lparr>creation_time := v\<rparr>
      else if k = ''created_by'' then self\<lparr>created_by := v\<rparr>
      else if k = ''last_modified_time'' then self\<lparr>last_modified_time := v\<rparr>
      else if k = ''last_modified_by'' then self\<lparr>last_modified_by := v\<rparr>
      else if k = ''parameters'' then self\<lparr>parameters := v\<rparr>
      else if k = ''input_artifacts'' then self\<lparr>input_artifacts := v\<rparr>
      else if k = ''output_artifacts'' then self\<lparr>output_artifacts := v\<rparr>
      else if k = ''metrics'' then self\<lparr>metrics := v\<rparr>
      else if k = ''parameters_to_remove'' then self\<lparr>parameters_to_remove := v\<rparr>
      else if k = ''input_artifacts_to_remove'' then self\<lparr>input_artifacts_to_remove := v\<rparr>
      else if k = ''output_artifacts_to_remove'' then self\<lparr>output_artifacts_to_remove := v\<rparr>
      else if k = ''tags'' then self\<lparr>tags := v\<rparr>
      else self)"

text \<open>A new instance: the session, and every declared attribute at its default.\<close>

definition new_record :: "Session \<Rightarrow> LineageTrialComponent" where
  "new_record s =
     \<lparr>sagemaker_session = s,
      trial_component_name = PyNone,
      trial_component_arn = PyNone,
      display_name = PyNone,
      source = PyNone,
      status = PyNone,
      start_time = PyNone,
      end_time = PyNone,
      creation_time = PyNone,
      created_by = PyNone,
      last_modified_time = PyNone,
      last_modified_by = PyNone,
      parameters = PyNone,
      input_artifacts = PyNone,
      output_artifacts = PyNone,
      metrics = PyNone,
      parameters_to_remove = PyNone,
      input_artifacts_to_remove = PyNone,
      output_artifacts_to_remove = PyNone,
      tags = PyNone\<rparr>"

text \<open>
  Modelled from the spec: the errors of the collaborators ("Error taxonomy"): NotFound,
  Unauthorized/Forbidden, Throttled/ServiceUnavailable and ValidationError.
\<close>

datatype error = NotFound | Unauthorized | Throttled | ValidationError

text \<open>
  Modelled from the spec: the record base mechanism (\<open>_construct\<close> and the update and
  delete orchestration of the base class \<open>Record\<close>) is not part of the source file. The
  spec describes it as generic orchestration "given the four operation names, the
  allow-list of updatable fields, and the delete-payload field list": an operation sends
  the populated fields named in its member list, and a load returns a record populated
  from the response. Member names stand for the remote field names they are mapped to.
\<close>

definition api_values :: "string list \<Rightarrow> LineageTrialComponent \<Rightarrow> (string \<rightharpoonup> pyval)" where
  "api_values boto_method_members self =
     (\<lambda>k. if k \<in> set boto_method_members
          then (case getattr_member k self of
                  None \<Rightarrow> None
                | Some v \<Rightarrow> if v = PyNone then None else Some v)
          else None)"

definition pick :: "(string \<rightharpoonup> pyval) \<Rightarrow> string \<Rightarrow> pyval \<Rightarrow> pyval" where
  "pick boto_dict k old = (case boto_dict k of None \<Rightarrow> old | Some v \<Rightarrow> v)"

text \<open>
  Modelled from the spec: populating a record from a response, every declared attribute
  the response holds replacing the record's.
\<close>

definition with_boto :: "(string \<rightharpoonup> pyval) \<Rightarrow> LineageTrialComponent \<Rightarrow> LineageTrialComponent" where
  "with_boto boto_dict self =
     \<lparr>sagemaker_session = sagemaker_session self,
      trial_component_name = pick boto_dict ''trial_component_name'' (trial_component_name self),
      trial_component_arn = pick boto_dict ''trial_component_arn'' (trial_component_arn self),
      display_name = pick boto_dict ''display_name'' (display_name self),
      source = pick boto_dict ''source'' (source self),
      status = pick boto_dict ''status'' (status self),
      start_time = pick boto_dict ''start_time'' (start_time self),
      end_time = pick boto_dict ''end_time'' (end_time self),
      creation_time = pick boto_dict ''creation_time'' (creation_time self),
      created_by = pick boto_dict ''created_by'' (created_by self),
      last_modified_time = pick boto_dict ''last_modified_time'' (last_modified_time self),
      last_modified_by = pick boto_dict ''last_modified_by'' (last_modified_by self),
      parameters = pick boto_dict ''parameters'' (parameters self),
      input_artifacts = pick boto_dict ''input_artifacts'' (input_artifacts self),
      output_artifacts = pick boto_dict ''output_artifacts'' (output_artifacts self),
      metrics = pick boto_dict ''metrics'' (metrics self),
      parameters_to_remove = pick boto_dict ''parameters_to_remove'' (parameters_to_remove self),
      input_artifacts_to_remove =
        pick boto_dict ''input_artifacts_to_remove'' (input_artifacts_to_remove self),
      output_artifacts_to_remove =
        pick boto_dict ''output_artifacts_to_remove'' (output_artifacts_to_remove self),
      tags = pick boto_dict ''tags'' (tags self)\<rparr>"

text \<open>
  Modelled from the spec: \<open>_construct\<close> "fetches the remote resource ... using the
  describe-operation", fails with the error of the remote call, and otherwise "returns a
  fully populated record". The session is the given one, or the default one when none is
  given (the docstring of \<open>load\<close>).
\<close>

definition construct ::
  "('w, 'e, 'v, 'a) collaborators \<Rightarrow> string \<Rightarrow> Session option \<Rightarrow> (string \<rightharpoonup> pyval) \<Rightarrow> 'w
     \<Rightarrow> ('e + LineageTrialComponent) \<times> 'w" where
  "construct env boto_method_name session_arg kwargs w =
     (let s = (case session_arg of None \<Rightarrow> default_session env | Some given \<Rightarrow> given)
      in case invoke env s boto_method_name kwargs w of
           (Inl e, w') \<Rightarrow> (Inl e, w')
         | (Inr response, w') \<Rightarrow> (Inr (with_boto response (new_record s)), w'))"

text \<open>The class method \<open>load\<close> of the source file.\<close>

definition load ::
  "('w, 'e, 'v, 'a) collaborators \<Rightarrow> string \<Rightarrow> Session option \<Rightarrow> 'w
     \<Rightarrow> ('e + LineageTrialComponent) \<times> 'w" where
  "load env name session_arg w =
     construct env boto_load_method session_arg [''trial_component_name'' \<mapsto> PyStr name] w"

text \<open>
  Modelled from the spec: what the update call sends. The spec's words are "sends exactly
  those changed fields (and any populated \<open>*_to_remove\<close> lists)", out of "a fixed
  allow-list of fields". A field is changed when its value differs from the one the record
  had when it was loaded or created (\<open>loaded\<close>); a changed field is sent with its
  current value, \<open>None\<close> included. A removal list is populated when it holds at least one
  key.
\<close>

definition removal_members :: "string list" where
  "removal_members =
     [''parameters_to_remove'', ''input_artifacts_to_remove'', ''output_artifacts_to_remove'']"

definition populated :: "pyval \<Rightarrow> bool" where
  "populated v = (v \<noteq> PyNone \<and> v \<noteq> PyList [])"

definition changed_values ::
  "string list \<Rightarrow> LineageTrialComponent \<Rightarrow> LineageTrialComponent \<Rightarrow> (string \<rightharpoonup> pyval)" where
  "changed_values boto_method_members loaded self =
     (\<lambda>k. if k \<in> set boto_method_members
          then (case getattr_member k self of
                  None \<Rightarrow> None
                | Some v \<Rightarrow>
                    if getattr_member k loaded \<noteq> Some v then Some v
                    else if k \<in> set removal_members \<and> populated v then Some v
                    else None)
          else None)"

text \<open>
  Modelled from the spec: the update and delete calls of the base mechanism, each one
  remote operation whose payload is drawn from the member list the class declares for it.
  The spec gives neither call an effect on the local record: both push to the remote
  store, and the record they are called on is the record they leave.
\<close>

definition update ::
  "('w, 'e, 'v, 'a) collaborators \<Rightarrow> LineageTrialComponent \<Rightarrow> LineageTrialComponent \<Rightarrow> 'w
     \<Rightarrow> ('e + (string \<rightharpoonup> pyval)) \<times> LineageTrialComponent \<times> 'w" where
  "update env loaded self w =
     (case invoke env (sagemaker_session self) boto_update_method
             (changed_values boto_update_members loaded self) w of
        (r, w') \<Rightarrow> (r, self, w'))"

definition delete ::
  "('w, 'e, 'v, 'a) collaborators \<Rightarrow> LineageTrialComponent \<Rightarrow> 'w
     \<Rightarrow> ('e + (string \<rightharpoonup> pyval)) \<times> LineageTrialComponent \<times> 'w" where
  "delete env self w =
     (case invoke env (sagemaker_session self) boto_delete_method
             (api_values boto_delete_members self) w of
        (r, w') \<Rightarrow> (r, self, w'))"

text \<open>
  Modelled from the spec: the remote store of trial components, the resources it holds,
  each a dictionary of its fields, and its describe-operation, which "fails with a
  NotFound-class error if the name does not exist, or an Unauthorized-class error on
  insufficient permission" and otherwise answers with the fields of the first resource
  of that name.
\<close>

type_synonym remote_store = "(string \<rightharpoonup> pyval) list"

definition named :: "string \<Rightarrow> (string \<rightharpoonup> pyval) \<Rightarrow> bool" where
  "named n resource = (resource ''trial_component_name'' = Some (PyStr n))"

definition describe_trial_component ::
  "Session \<Rightarrow> (string \<rightharpoonup> pyval) \<Rightarrow> remote_store \<Rightarrow> (error + (string \<rightharpoonup> pyval)) \<times> remote_store" where
  "describe_trial_component s request store =
     (if ''describe_trial_component'' \<notin> set (permitted_operations s)
      then (Inl Unauthorized, store)
      else case request ''trial_component_name'' of
             Some (PyStr n) \<Rightarrow>
               (case find (named n) store of
                  None \<Rightarrow> (Inl NotFound, store)
                | Some resource \<Rightarrow> (Inr resource, store))
           | _ \<Rightarrow> (Inl ValidationError, store))"

section \<open>A concrete world\<close>

text \<open>
  One store, two sessions, a few records and one set of collaborators, on which the
  theorems below are exercised.
\<close>

definition example_session :: Session where
  "example_session =
     \<lparr>permitted_operations =
        [''describe_trial_component'', ''update_trial_component'',
         ''delete_trial_component'']\<rparr>"

definition restricted_session :: Session where
  "restricted_session = \<lparr>permitted_operations = [''update_trial_component'']\<rparr>"

definition example_resource :: "string \<rightharpoonup> pyval" where
  "example_resource =
     [''trial_component_name'' \<mapsto> PyStr ''tc-1'',
      ''trial_component_arn'' \<mapsto> PyStr ''arn:tc-1'',
      ''display_name'' \<mapsto> PyStr ''Training'']"

definition example_store :: remote_store where
  "example_store =
     [[''trial_component_name'' \<mapsto> PyStr ''tc-0'',
       ''trial_component_arn'' \<mapsto> PyStr ''arn:tc-0''],
      example_resource]"

definition example_tags :: "Tag list" where
  "example_tags =
     [\<lparr>Key = ''project'', Value = ''demo''\<rparr>,
      \<lparr>Key = ''sagemaker:pipeline-execution-arn'', Value = ''arn:pipeline/first''\<rparr>,
      \<lparr>Key = ''owner'', Value = ''team''\<rparr>,
      \<lparr>Key = ''sagemaker:pipeline-execution-arn'', Value = ''arn:pipeline/second''\<rparr>]"

definition example_env :: "(remote_store, error, string, string) collaborators" where
  "example_env =
     \<lparr>list_tags = (\<lambda>s arn store.
        if arn = PyStr ''arn:tc-1'' then (Inr example_tags, store)
        else (Inr [\<lparr>Key = ''project'', Value = ''demo''\<rparr>], store)),
      lineage_query = (\<lambda>s req store.
        if direction req = BOTH then (Inl ValidationError, store)
        else if start_arns req \<noteq> [PyStr ''arn:tc-1''] then (Inr \<lparr>vertices = []\<rparr>, store)
        else if sources (query_filter req) = [DATASET]
        then (Inr \<lparr>vertices = [''dataset-a'', ''dataset-b'']\<rparr>, store)
        else (Inr \<lparr>vertices = [''model-a'']\<rparr>, store)),
      to_lineage_object = (\<lambda>v store. (Inr (''artifact:'' @ v), store)),
      invoke = (\<lambda>s name payload store.
        if name = ''describe_trial_component'' then describe_trial_component s payload store
        else (Inr Map.empty, store)),
      default_session = example_session\<rparr>"

definition example_record :: LineageTrialComponent where
  "example_record =
     (new_record example_session)
       \<lparr>trial_component_name := PyStr ''tc-1'',
        trial_component_arn := PyStr ''arn:tc-1'',
        display_name := PyStr ''Training'',
        creation_time := PyInt 1700000000,
        parameters_to_remove := PyList [PyStr ''learning_rate'']\<rparr>"

text \<open>The record \<open>load\<close> returns for \<open>tc-1\<close>, and the same record after local changes.\<close>

definition loaded_record :: LineageTrialComponent where
  "loaded_record =
     (new_record example_session)
       \<lparr>trial_component_name := PyStr ''tc-1'',
        trial_component_arn := PyStr ''arn:tc-1'',
        display_name := PyStr ''Training''\<rparr>"

definition edited_record :: LineageTrialComponent where
  "edited_record =
     loaded_record
       \<lparr>trial_component_arn := PyStr ''arn:elsewhere'',
        display_name := PyNone,
        status := PyStr ''Completed'',
        parameters_to_remove := PyList [PyStr ''learning_rate'']\<rparr>"

section \<open>The tag lookup\<close>

lemma scan_tags_find:
  "scan_tags ts = map_option Value (find (\<lambda>t. Key t = ''sagemaker:pipeline-execution-arn'') ts)"
  by (induction ts) auto

lemma scan_tags_absent:
  "(\<forall>t\<in>set ts. Key t \<noteq> ''sagemaker:pipeline-execution-arn'') \<Longrightarrow> scan_tags ts = None"
  by (induction ts) auto

lemma scan_tags_first:
  "(\<forall>x\<in>set pre. Key x \<noteq> ''sagemaker:pipeline-execution-arn'') \<Longrightarrow>
   Key t = ''sagemaker:pipeline-execution-arn'' \<Longrightarrow>
   scan_tags (pre @ t # post) = Some (Value t)"
  by (induction pre) auto

text \<open>
  C1. Whatever list of tags \<open>ts\<close> the remote \<open>list_tags\<close> call returns, of any length and
  in any order, \<open>pipeline_execution_arn\<close> returns the value of the first tag of \<open>ts\<close> whose
  key is \<open>sagemaker:pipeline-execution-arn\<close>: it returns \<open>None\<close> when no tag has that key,
  and when \<open>ts\<close> splits into tags \<open>pre\<close> without the key, a tag \<open>t\<close> with the key and any
  rest \<open>post\<close> (which may hold the key again), it returns the value of \<open>t\<close>.
\<close>

theorem pipeline_execution_arn_first_match:
  assumes "list_tags env (sagemaker_session self) (trial_component_arn self) w = (Inr ts, w')"
  shows "fst (pipeline_execution_arn env self w)
           = Inr (map_option Value (find (\<lambda>t. Key t = ''sagemaker:pipeline-execution-arn'') ts))
       \<and> ((\<forall>t\<in>set ts. Key t \<noteq> ''sagemaker:pipeline-execution-arn'')
            \<longrightarrow> fst (pipeline_execution_arn env self w) = Inr None)
       \<and> (\<forall>pre t post.
             ts = pre @ t # post
             \<and> (\<forall>x\<in>set pre. Key x \<noteq> ''sagemaker:pipeline-execution-arn'')
             \<and> Key t = ''sagemaker:pipeline-execution-arn''
            \<longrightarrow> fst (pipeline_execution_arn env self w) = Inr (Some (Value t)))"
proof -
  have run: "fst (pipeline_execution_arn env self w) = Inr (scan_tags ts)"
    using assms by (simp add: pipeline_execution_arn_def)
  show ?thesis
    unfolding run
    using scan_tags_find [of ts] scan_tags_absent [of ts] scan_tags_first
    by (auto simp del: scan_tags.simps)
qed

theorem pipeline_execution_arn_first_match_witness:
  "fst (pipeline_execution_arn example_env example_record example_store)
     = Inr (Some ''arn:pipeline/first'')
   \<and> fst (pipeline_execution_arn example_env
            (example_record\<lparr>trial_component_arn := PyStr ''arn:tc-2''\<rparr>) example_store)
     = Inr None"
proof -
  have tags1: "list_tags example_env (sagemaker_session example_record)
                 (trial_component_arn example_record) example_store
               = (Inr example_tags, example_store)"
    by (simp add: example_env_def example_record_def new_record_def)
  have split1: "example_tags =
      [\<lparr>Key = ''project'', Value = ''demo''\<rparr>]
      @ \<lparr>Key = ''sagemaker:pipeline-execution-arn'', Value = ''arn:pipeline/first''\<rparr>
      # [\<lparr>Key = ''owner'', Value = ''team''\<rparr>,
         \<lparr>Key = ''sagemaker:pipeline-execution-arn'', Value = ''arn:pipeline/second''\<rparr>]"
    by (simp add: example_tags_def)
  have first: "fst (pipeline_execution_arn example_env example_record example_store)
                 = Inr (Some ''arn:pipeline/first'')"
    using pipeline_execution_arn_first_match [OF tags1] split1 by fastforce
  let ?other = "example_record\<lparr>trial_component_arn := PyStr ''arn:tc-2''\<rparr>"
  have tags2: "list_tags example_env (sagemaker_session ?other)
                 (trial_component_arn ?other) example_store
               = (Inr [\<lparr>Key = ''project'', Value = ''demo''\<rparr>], example_store)"
    by (simp add: example_env_def example_record_def new_record_def)
  have none: "fst (pipeline_execution_arn example_env ?other example_store) = Inr None"
    using pipeline_execution_arn_first_match [OF tags2] by simp
  from first none show ?thesis by simp
qed


section \<open>The two lineage queries\<close>

lemma query_calls_append: "query_calls (xs @ ys) = query_calls xs @ query_calls ys"
  by (induction xs rule: query_calls.induct) auto

lemma conversion_calls_append:
  "conversion_calls (xs @ ys) = conversion_calls xs @ conversion_calls ys"
  by (induction xs rule: conversion_calls.induct) auto

lemma traced_lineage_query:
  "lineage_query (traced env) s req (w, tr) =
     (fst (lineage_query env s req w), (snd (lineage_query env s req w), tr @ [QueryCall s req]))"
  by (simp add: traced_def split: prod.splits)

lemma traced_to_lineage_object:
  "to_lineage_object (traced env) v (w, tr) =
     (fst (to_lineage_object env v w), (snd (to_lineage_object env v w), tr @ [ConversionCall v]))"
  by (simp add: traced_def split: prod.splits)

lemma traced_conversions_outcome:
  "fst (to_lineage_objects (traced env) vs (w, tr)) = fst (to_lineage_objects env vs w)
   \<and> fst (snd (to_lineage_objects (traced env) vs (w, tr))) = snd (to_lineage_objects env vs w)"
proof (induction vs arbitrary: w tr)
  case Nil
  show ?case by simp
next
  case (Cons v vs)
  obtain r w1 where step: "to_lineage_object env v w = (r, w1)"
    by (cases "to_lineage_object env v w")
  show ?case
  proof (cases r)
    case (Inl e)
    with step show ?thesis by (simp add: traced_to_lineage_object)
  next
    case (Inr obj)
    obtain r2 w2 where rest: "to_lineage_objects env vs w1 = (r2, w2)"
      by (cases "to_lineage_objects env vs w1")
    obtain r3 w3 tr3 where rest':
      "to_lineage_objects (traced env) vs (w1, tr @ [ConversionCall v]) = (r3, (w3, tr3))"
      by (metis surj_pair)
    from Cons.IH [of w1 "tr @ [ConversionCall v]"] rest rest'
    have "r3 = r2" "w3 = w2" by simp_all
    with step Inr rest rest' show ?thesis
      by (cases r2) (simp_all add: traced_to_lineage_object)
  qed
qed

lemma traced_conversions_queries:
  "query_calls (snd (snd (to_lineage_objects (traced env) vs (w, tr)))) = query_calls tr"
proof (induction vs arbitrary: w tr)
  case Nil
  show ?case by simp
next
  case (Cons v vs)
  obtain r w1 where step: "to_lineage_object env v w = (r, w1)"
    by (cases "to_lineage_object env v w")
  show ?case
  proof (cases r)
    case (Inl e)
    with step show ?thesis by (simp add: traced_to_lineage_object query_calls_append)
  next
    case (Inr obj)
    obtain r3 w3 tr3 where rest':
      "to_lineage_objects (traced env) vs (w1, tr @ [ConversionCall v]) = (r3, (w3, tr3))"
      by (metis surj_pair)
    from Cons.IH [of w1 "tr @ [ConversionCall v]"] rest'
    have "query_calls tr3 = query_calls tr" by (simp add: query_calls_append)
    with step Inr rest' show ?thesis
      by (cases r3) (simp_all add: traced_to_lineage_object)
  qed
qed

lemma conversions_succeed:
  "(\<forall>v\<in>set vs. \<forall>u. fst (to_lineage_object env v u) = Inr (f v)) \<Longrightarrow>
   fst (to_lineage_objects env vs w) = Inr (map f vs)"
proof (induction vs arbitrary: w)
  case Nil
  show ?case by simp
next
  case (Cons v vs)
  obtain r w1 where step: "to_lineage_object env v w = (r, w1)"
    by (cases "to_lineage_object env v w")
  from Cons.prems have "fst (to_lineage_object env v w) = Inr (f v)" by simp
  with step have r: "r = Inr (f v)" by simp
  obtain r2 w2 where rest: "to_lineage_objects env vs w1 = (r2, w2)"
    by (cases "to_lineage_objects env vs w1")
  from Cons.IH [of w1] Cons.prems rest have "r2 = Inr (map f vs)" by simp
  with step r rest show ?case by simp
qed

lemma conversions_in_order:
  "(\<forall>v\<in>set vs. \<forall>u. fst (to_lineage_object env v u) = Inr (f v)) \<Longrightarrow>
   conversion_calls (snd (snd (to_lineage_objects (traced env) vs (w, tr))))
     = conversion_calls tr @ vs"
proof (induction vs arbitrary: w tr)
  case Nil
  show ?case by simp
next
  case (Cons v vs)
  obtain r w1 where step: "to_lineage_object env v w = (r, w1)"
    by (cases "to_lineage_object env v w")
  from Cons.prems have "fst (to_lineage_object env v w) = Inr (f v)" by simp
  with step have r: "r = Inr (f v)" by simp
  obtain r3 w3 tr3 where rest':
    "to_lineage_objects (traced env) vs (w1, tr @ [ConversionCall v]) = (r3, (w3, tr3))"
    by (metis surj_pair)
  from Cons.IH [of w1 "tr @ [ConversionCall v]"] Cons.prems rest'
  have "conversion_calls tr3 = conversion_calls tr @ v # vs"
    by (simp add: conversion_calls_append)
  with step r rest' show ?case
    by (cases r3) (simp_all add: traced_to_lineage_object)
qed

lemma traced_dataset_artifacts_queries:
  "query_calls (snd (snd (snd (dataset_artifacts (traced env) direction_arg self (w, tr)))))
     = query_calls tr
       @ [(sagemaker_session self,
           \<lparr>start_arns = [trial_component_arn self],
            query_filter = \<lparr>entities = [ARTIFACT], sources = [DATASET]\<rparr>,
            direction = (case direction_arg of None \<Rightarrow> ASCENDANTS | Some given \<Rightarrow> given),
            include_edges = False\<rparr>)]"
proof -
  let ?s = "sagemaker_session self"
  let ?req = "\<lparr>start_arns = [trial_component_arn self],
            query_filter = \<lparr>entities = [ARTIFACT], sources = [DATASET]\<rparr>,
            direction = (case direction_arg of None \<Rightarrow> ASCENDANTS | Some given \<Rightarrow> given),
            include_edges = False\<rparr>"
  obtain r w1 where q: "lineage_query env ?s ?req w = (r, w1)"
    by (cases "lineage_query env ?s ?req w")
  show ?thesis
  proof (cases r)
    case (Inl e)
    with q show ?thesis
      by (simp add: dataset_artifacts_def traced_lineage_query query_calls_append)
  next
    case (Inr res)
    obtain r3 w3 tr3 where conv:
      "to_lineage_objects (traced env) (vertices res) (w1, tr @ [QueryCall ?s ?req])
         = (r3, (w3, tr3))"
      by (metis surj_pair)
    from traced_conversions_queries [of env "vertices res" w1 "tr @ [QueryCall ?s ?req]"] conv
    have "query_calls tr3 = query_calls tr @ [(?s, ?req)]"
      by (simp add: query_calls_append)
    with q Inr conv show ?thesis
      by (simp add: dataset_artifacts_def traced_lineage_query)
  qed
qed

lemma traced_models_queries:
  "query_calls (snd (snd (snd (models (traced env) direction_arg self (w, tr)))))
     = query_calls tr
       @ [(sagemaker_session self,
           \<lparr>start_arns = [trial_component_arn self],
            query_filter = \<lparr>entities = [ARTIFACT], sources = [MODEL]\<rparr>,
            direction = (case direction_arg of None \<Rightarrow> DESCENDANTS | Some given \<Rightarrow> given),
            include_edges = False\<rparr>)]"
proof -
  let ?s = "sagemaker_session self"
  let ?req = "\<lparr>start_arns = [trial_component_arn self],
            query_filter = \<lparr>entities = [ARTIFACT], sources = [MODEL]\<rparr>,
            direction = (case direction_arg of None \<Rightarrow> DESCENDANTS | Some given \<Rightarrow> given),
            include_edges = False\<rparr>"
  obtain r w1 where q: "lineage_query env ?s ?req w = (r, w1)"
    by (cases "lineage_query env ?s ?req w")
  show ?thesis
  proof (cases r)
    case (Inl e)
    with q show ?thesis
      by (simp add: models_def traced_lineage_query query_calls_append)
  next
    case (Inr res)
    obtain r3 w3 tr3 where conv:
      "to_lineage_objects (traced env) (vertices res) (w1, tr @ [QueryCall ?s ?req])
         = (r3, (w3, tr3))"
      by (metis surj_pair)
    from traced_conversions_queries [of env "vertices res" w1 "tr @ [QueryCall ?s ?req]"] conv
    have "query_calls tr3 = query_calls tr @ [(?s, ?req)]"
      by (simp add: query_calls_append)
    with q Inr conv show ?thesis
      by (simp add: models_def traced_lineage_query)
  qed
qed

text \<open>
  C2. For every direction \<open>d\<close>, \<open>dataset_artifacts(direction=d)\<close> makes exactly one call of
  the lineage query, with start_arns the singleton list of the record's
  \<open>trial_component_arn\<close>, entities \<open>[ARTIFACT]\<close>, sources \<open>[DATASET]\<close>, direction \<open>d\<close> and
  \<open>include_edges=False\<close>. When that call returns a result, the outcome of the method is the
  outcome of converting the vertices of the result from left to right; it is the empty
  list when the result has no vertices; and when every conversion returns its object, the
  method returns the objects of the vertices in the order of the result, each vertex
  being converted once, in that order.
\<close>

theorem dataset_artifacts_traversal:
  "query_calls (snd (snd (snd (dataset_artifacts (traced env) (Some d) self (w, tr)))))
     = query_calls tr
       @ [(sagemaker_session self,
           \<lparr>start_arns = [trial_component_arn self],
            query_filter = \<lparr>entities = [ARTIFACT], sources = [DATASET]\<rparr>,
            direction = d,
            include_edges = False\<rparr>)]
   \<and> (\<forall>res w1.
         lineage_query env (sagemaker_session self)
           \<lparr>start_arns = [trial_component_arn self],
            query_filter = \<lparr>entities = [ARTIFACT], sources = [DATASET]\<rparr>,
            direction = d,
            include_edges = False\<rparr> w = (Inr res, w1)
         \<longrightarrow> fst (dataset_artifacts env (Some d) self w)
               = fst (to_lineage_objects env (vertices res) w1)
           \<and> (vertices res = [] \<longrightarrow> fst (dataset_artifacts env (Some d) self w) = Inr [])
           \<and> (\<forall>f. (\<forall>v\<in>set (vertices res). \<forall>u. fst (to_lineage_object env v u) = Inr (f v))
                 \<longrightarrow> fst (dataset_artifacts env (Some d) self w) = Inr (map f (vertices res))
                   \<and> conversion_calls
                        (snd (snd (snd (dataset_artifacts (traced env) (Some d) self (w, [])))))
                      = vertices res))"
proof (intro conjI allI impI)
  show "query_calls (snd (snd (snd (dataset_artifacts (traced env) (Some d) self (w, tr)))))
     = query_calls tr
       @ [(sagemaker_session self,
           \<lparr>start_arns = [trial_component_arn self],
            query_filter = \<lparr>entities = [ARTIFACT], sources = [DATASET]\<rparr>,
            direction = d,
            include_edges = False\<rparr>)]"
    using traced_dataset_artifacts_queries [of env "Some d" self w tr] by simp
next
  fix res w1
  assume q: "lineage_query env (sagemaker_session self)
           \<lparr>start_arns = [trial_component_arn self],
            query_filter = \<lparr>entities = [ARTIFACT], sources = [DATASET]\<rparr>,
            direction = d,
            include_edges = False\<rparr> w = (Inr res, w1)"
  then show run: "fst (dataset_artifacts env (Some d) self w)
               = fst (to_lineage_objects env (vertices res) w1)"
    by (simp add: dataset_artifacts_def split: prod.splits)
  {
    assume "vertices res = []"
    with run show "fst (dataset_artifacts env (Some d) self w) = Inr []" by simp
  }
  fix f
  assume ok: "\<forall>v\<in>set (vertices res). \<forall>u. fst (to_lineage_object env v u) = Inr (f v)"
  with run show "fst (dataset_artifacts env (Some d) self w) = Inr (map f (vertices res))"
    by (simp add: conversions_succeed)
  obtain r3 w3 tr3 where conv:
    "to_lineage_objects (traced env) (vertices res)
       (w1, [QueryCall (sagemaker_session self)
           \<lparr>start_arns = [trial_component_arn self],
            query_filter = \<lparr>entities = [ARTIFACT], sources = [DATASET]\<rparr>,
            direction = d,
            include_edges = False\<rparr>]) = (r3, (w3, tr3))"
    by (metis surj_pair)
  from conversions_in_order [OF ok, of w1 "[QueryCall (sagemaker_session self)
           \<lparr>start_arns = [trial_component_arn self],
            query_filter = \<lparr>entities = [ARTIFACT], sources = [DATASET]\<rparr>,
            direction = d,
            include_edges = False\<rparr>]"] conv
  have "conversion_calls tr3 = vertices res" by simp
  with q conv
  show "conversion_calls
          (snd (snd (snd (dataset_artifacts (traced env) (Some d) self (w, [])))))
        = vertices res"
    by (simp add: dataset_artifacts_def traced_lineage_query)
qed

theorem dataset_artifacts_traversal_witness:
  "query_calls (snd (snd (snd
      (dataset_artifacts (traced example_env) (Some ASCENDANTS) example_record
         (example_store, [])))))
     = [(example_session,
         \<lparr>start_arns = [PyStr ''arn:tc-1''],
          query_filter = \<lparr>entities = [ARTIFACT], sources = [DATASET]\<rparr>,
          direction = ASCENDANTS,
          include_edges = False\<rparr>)]
   \<and> fst (dataset_artifacts example_env (Some ASCENDANTS) example_record example_store)
     = Inr [''artifact:dataset-a'', ''artifact:dataset-b'']
   \<and> conversion_calls (snd (snd (snd
        (dataset_artifacts (traced example_env) (Some ASCENDANTS) example_record
           (example_store, [])))))
     = [''dataset-a'', ''dataset-b'']
   \<and> fst (dataset_artifacts example_env (Some DESCENDANTS)
            (example_record\<lparr>trial_component_arn := PyStr ''arn:tc-2''\<rparr>) example_store)
     = Inr []"
proof -
  note spec = dataset_artifacts_traversal
    [where env = example_env and d = ASCENDANTS and self = example_record
       and w = example_store and tr = "[]"]
  have session: "sagemaker_session example_record = example_session"
    and arn: "trial_component_arn example_record = PyStr ''arn:tc-1''"
    by (simp_all add: example_record_def new_record_def)
  have q: "lineage_query example_env (sagemaker_session example_record)
             \<lparr>start_arns = [trial_component_arn example_record],
              query_filter = \<lparr>entities = [ARTIFACT], sources = [DATASET]\<rparr>,
              direction = ASCENDANTS,
              include_edges = False\<rparr> example_store
           = (Inr \<lparr>vertices = [''dataset-a'', ''dataset-b'']\<rparr>, example_store)"
    by (simp add: example_env_def arn)
  have ok: "\<forall>v\<in>set (vertices \<lparr>vertices = [''dataset-a'', ''dataset-b'']\<rparr>).
              \<forall>u. fst (to_lineage_object example_env v u) = Inr (''artifact:'' @ v)"
    by (simp add: example_env_def)
  from spec have calls: "query_calls (snd (snd (snd
      (dataset_artifacts (traced example_env) (Some ASCENDANTS) example_record
         (example_store, [])))))
     = [(example_session,
         \<lparr>start_arns = [PyStr ''arn:tc-1''],
          query_filter = \<lparr>entities = [ARTIFACT], sources = [DATASET]\<rparr>,
          direction = ASCENDANTS,
          include_edges = False\<rparr>)]"
    by (simp add: session arn)
  from spec q ok
  have objs: "fst (dataset_artifacts example_env (Some ASCENDANTS) example_record example_store)
                = Inr (map (\<lambda>v. ''artifact:'' @ v)
                         (vertices \<lparr>vertices = [''dataset-a'', ''dataset-b'']\<rparr>))"
    and order: "conversion_calls (snd (snd (snd
        (dataset_artifacts (traced example_env) (Some ASCENDANTS) example_record
           (example_store, [])))))
      = vertices \<lparr>vertices = [''dataset-a'', ''dataset-b'']\<rparr>"
    by blast+
  let ?other = "example_record\<lparr>trial_component_arn := PyStr ''arn:tc-2''\<rparr>"
  have q2: "lineage_query example_env (sagemaker_session ?other)
             \<lparr>start_arns = [trial_component_arn ?other],
              query_filter = \<lparr>entities = [ARTIFACT], sources = [DATASET]\<rparr>,
              direction = DESCENDANTS,
              include_edges = False\<rparr> example_store
           = (Inr \<lparr>vertices = []\<rparr>, example_store)"
    by (simp add: example_env_def)
  from dataset_artifacts_traversal
    [where env = example_env and d = DESCENDANTS and self = ?other and w = example_store] q2
  have empty: "fst (dataset_artifacts example_env (Some DESCENDANTS) ?other example_store)
                 = Inr []"
    by simp
  from calls objs order empty show ?thesis by simp
qed

text \<open>
  C3. Called with no direction, \<open>models\<close> queries with direction DESCENDANTS and sources
  \<open>[MODEL]\<close>, and \<open>dataset_artifacts\<close> queries with direction ASCENDANTS; a direction passed
  to either method replaces the default, so \<open>models(direction=ASCENDANTS)\<close> queries with
  direction ASCENDANTS.
\<close>

theorem direction_defaults:
  "map (direction \<circ> snd)
     (query_calls (snd (snd (snd (models (traced env) None self (w, []))))))
     = [DESCENDANTS]
   \<and> map (sources \<circ> query_filter \<circ> snd)
       (query_calls (snd (snd (snd (models (traced env) None self (w, []))))))
     = [[MODEL]]
   \<and> map (direction \<circ> snd)
       (query_calls (snd (snd (snd (dataset_artifacts (traced env) None self (w, []))))))
     = [ASCENDANTS]
   \<and> map (direction \<circ> snd)
       (query_calls (snd (snd (snd (models (traced env) (Some d) self (w, []))))))
     = [d]
   \<and> map (direction \<circ> snd)
       (query_calls (snd (snd (snd (dataset_artifacts (traced env) (Some d) self (w, []))))))
     = [d]
   \<and> map (direction \<circ> snd)
       (query_calls (snd (snd (snd (models (traced env) (Some ASCENDANTS) self (w, []))))))
     = [ASCENDANTS]
   \<and> models env None self w = models env (Some DESCENDANTS) self w
   \<and> dataset_artifacts env None self w = dataset_artifacts env (Some ASCENDANTS) self w"
proof (intro conjI)
  show "models env None self w = models env (Some DESCENDANTS) self w"
    by (simp add: models_def)
  show "dataset_artifacts env None self w = dataset_artifacts env (Some ASCENDANTS) self w"
    by (simp add: dataset_artifacts_def)
qed (simp_all add: traced_models_queries traced_dataset_artifacts_queries)

text \<open>
  C4. For every direction and every behaviour of the collaborators, \<open>dataset_artifacts\<close>
  and \<open>models\<close> are the two instances, at the source types DATASET and MODEL, of the one
  traversal the spec describes: they make the same request except for the sources of the
  filter, and convert the returned vertices in the same way.
\<close>

theorem models_and_dataset_artifacts_same_shape:
  "dataset_artifacts env (Some d) self w = spec_artifacts_of_source env DATASET d self w
   \<and> models env (Some d) self w = spec_artifacts_of_source env MODEL d self w
   \<and> map (\<lambda>(s, req). (s, req\<lparr>query_filter := (query_filter req)\<lparr>sources := [DATASET]\<rparr>\<rparr>))
       (query_calls (snd (snd (snd (models (traced env) (Some d) self (w, []))))))
     = query_calls (snd (snd (snd (dataset_artifacts (traced env) (Some d) self (w, [])))))"
proof (intro conjI)
  show "dataset_artifacts env (Some d) self w = spec_artifacts_of_source env DATASET d self w"
    by (simp add: dataset_artifacts_def spec_artifacts_of_source_def)
  show "models env (Some d) self w = spec_artifacts_of_source env MODEL d self w"
    by (simp add: models_def spec_artifacts_of_source_def)
qed (simp add: traced_models_queries traced_dataset_artifacts_queries)

text \<open>
  C5. Whatever error the call of the lineage query raises, \<open>dataset_artifacts\<close> and
  \<open>models\<close> end with that same error, in the world the call left, the record untouched:
  the one call of the query is the only remote call they make (no retry, no conversion),
  and no list is returned in place of the error.
\<close>

theorem query_errors_propagate:
  "(lineage_query env (sagemaker_session self)
      \<lparr>start_arns = [trial_component_arn self],
       query_filter = \<lparr>entities = [ARTIFACT], sources = [DATASET]\<rparr>,
       direction = (case direction_arg of None \<Rightarrow> ASCENDANTS | Some given \<Rightarrow> given),
       include_edges = False\<rparr> w = (Inl e, wd)
    \<longrightarrow> dataset_artifacts env direction_arg self w = (Inl e, self, wd)
      \<and> snd (snd (snd (dataset_artifacts (traced env) direction_arg self (w, []))))
        = [QueryCall (sagemaker_session self)
             \<lparr>start_arns = [trial_component_arn self],
              query_filter = \<lparr>entities = [ARTIFACT], sources = [DATASET]\<rparr>,
              direction = (case direction_arg of None \<Rightarrow> ASCENDANTS | Some given \<Rightarrow> given),
              include_edges = False\<rparr>])
   \<and> (lineage_query env (sagemaker_session self)
        \<lparr>start_arns = [trial_component_arn self],
         query_filter = \<lparr>entities = [ARTIFACT], sources = [MODEL]\<rparr>,
         direction = (case direction_arg of None \<Rightarrow> DESCENDANTS | Some given \<Rightarrow> given),
         include_edges = False\<rparr> w = (Inl e', wm)
      \<longrightarrow> models env direction_arg self w = (Inl e', self, wm)
        \<and> snd (snd (snd (models (traced env) direction_arg self (w, []))))
          = [QueryCall (sagemaker_session self)
               \<lparr>start_arns = [trial_component_arn self],
                query_filter = \<lparr>entities = [ARTIFACT], sources = [MODEL]\<rparr>,
                direction = (case direction_arg of None \<Rightarrow> DESCENDANTS | Some given \<Rightarrow> given),
                include_edges = False\<rparr>])"
  by (simp add: dataset_artifacts_def models_def traced_lineage_query)

theorem query_errors_propagate_witness:
  "dataset_artifacts example_env (Some BOTH) example_record example_store
     = (Inl ValidationError, example_record, example_store)
   \<and> models example_env (Some BOTH) example_record example_store
     = (Inl ValidationError, example_record, example_store)
   \<and> snd (snd (snd (models (traced example_env) (Some BOTH) example_record (example_store, []))))
     = [QueryCall example_session
          \<lparr>start_arns = [PyStr ''arn:tc-1''],
           query_filter = \<lparr>entities = [ARTIFACT], sources = [MODEL]\<rparr>,
           direction = BOTH,
           include_edges = False\<rparr>]"
proof -
  have session: "sagemaker_session example_record = example_session"
    and arn: "trial_component_arn example_record = PyStr ''arn:tc-1''"
    by (simp_all add: example_record_def new_record_def)
  have qd: "lineage_query example_env (sagemaker_session example_record)
      \<lparr>start_arns = [trial_component_arn example_record],
       query_filter = \<lparr>entities = [ARTIFACT], sources = [DATASET]\<rparr>,
       direction = (case Some BOTH of None \<Rightarrow> ASCENDANTS | Some given \<Rightarrow> given),
       include_edges = False\<rparr> example_store = (Inl ValidationError, example_store)"
    by (simp add: example_env_def)
  have qm: "lineage_query example_env (sagemaker_session example_record)
      \<lparr>start_arns = [trial_component_arn example_record],
       query_filter = \<lparr>entities = [ARTIFACT], sources = [MODEL]\<rparr>,
       direction = (case Some BOTH of None \<Rightarrow> DESCENDANTS | Some given \<Rightarrow> given),
       include_edges = False\<rparr> example_store = (Inl ValidationError, example_store)"
    by (simp add: example_env_def)
  from query_errors_propagate
    [where env = example_env and self = example_record and direction_arg = "Some BOTH"
       and w = example_store and e = ValidationError and wd = example_store
       and e' = ValidationError and wm = example_store] qd qm
  show ?thesis
    by (simp add: session arn)
qed

section \<open>Update, delete and the frame of the queries\<close>

lemma traced_invoke:
  "invoke (traced env) s name payload (w, tr) =
     (fst (invoke env s name payload w),
      (snd (invoke env s name payload w), tr @ [InvokeCall s name payload]))"
  by (simp add: traced_def split: prod.splits)

lemma delete_payload:
  "api_values boto_delete_members self =
     (if trial_component_name self = PyNone then Map.empty
      else [''trial_component_name'' \<mapsto> trial_component_name self])"
  by (rule ext) (simp add: api_values_def boto_delete_members_def getattr_member_def members_def)

lemma api_values_dom: "dom (api_values names self) \<subseteq> set names"
  by (auto simp: api_values_def split: if_splits)

text \<open>
  C6. Whatever the other fields of the record hold, the delete call makes one remote
  call, \<open>delete_trial_component\<close>, whose payload holds the \<open>trial_component_name\<close> of the
  record and no other field; the delete-payload member list the class declares is exactly
  \<open>["trial_component_name"]\<close>.
\<close>

theorem delete_sends_only_the_name:
  "boto_delete_members = [''trial_component_name'']
   \<and> snd (snd (snd (delete (traced env) self (w, tr))))
     = tr @ [InvokeCall (sagemaker_session self) ''delete_trial_component''
               (api_values boto_delete_members self)]
   \<and> api_values boto_delete_members self
     = (if trial_component_name self = PyNone then Map.empty
        else [''trial_component_name'' \<mapsto> trial_component_name self])
   \<and> dom (api_values boto_delete_members self) \<subseteq> {''trial_component_name''}"
proof (intro conjI)
  show "boto_delete_members = [''trial_component_name'']"
    by (simp add: boto_delete_members_def)
  show "snd (snd (snd (delete (traced env) self (w, tr))))
     = tr @ [InvokeCall (sagemaker_session self) ''delete_trial_component''
               (api_values boto_delete_members self)]"
    by (simp add: delete_def traced_invoke boto_delete_method_def)
  show "api_values boto_delete_members self
     = (if trial_component_name self = PyNone then Map.empty
        else [''trial_component_name'' \<mapsto> trial_component_name self])"
    by (rule delete_payload)
  show "dom (api_values boto_delete_members self) \<subseteq> {''trial_component_name''}"
    using api_values_dom [of boto_delete_members self] by (simp add: boto_delete_members_def)
qed

theorem delete_sends_only_the_name_witness:
  "snd (snd (snd (delete (traced example_env) example_record (example_store, []))))
     = [InvokeCall example_session ''delete_trial_component''
          [''trial_component_name'' \<mapsto> PyStr ''tc-1'']]"
proof -
  have name: "trial_component_name example_record = PyStr ''tc-1''"
    and session: "sagemaker_session example_record = example_session"
    by (simp_all add: example_record_def new_record_def)
  from delete_sends_only_the_name
    [where env = example_env and self = example_record and w = example_store and tr = "[]"]
  show ?thesis
    by (simp add: name session)
qed

lemma arn_not_updatable: "''trial_component_arn'' \<notin> set boto_update_members"
  by (simp add: boto_update_members_def)

lemma changed_values_dom: "dom (changed_values names loaded self) \<subseteq> set names"
  by (auto simp: changed_values_def split: if_splits)

lemma changed_values_sent:
  "dom (changed_values names loaded self)
     = {k \<in> set names. getattr_member k self \<noteq> None
                       \<and> getattr_member k self \<noteq> getattr_member k loaded}
       \<union> {k \<in> set names \<inter> set removal_members.
            \<exists>v. getattr_member k self = Some v \<and> populated v}"
  by (auto simp: changed_values_def split: if_splits option.splits)

lemma changed_values_current:
  "changed_values names loaded self k = Some v \<Longrightarrow> getattr_member k self = Some v"
  by (auto simp: changed_values_def split: if_splits option.splits)

lemma changed_values_untouched:
  "k \<notin> set removal_members \<Longrightarrow> changed_values names self self k = None"
  by (auto simp: changed_values_def split: if_splits option.splits)

lemma updatable_declared:
  "k \<in> set boto_update_members \<Longrightarrow> getattr_member k self \<noteq> None"
  by (auto simp: boto_update_members_def getattr_member_def members_def)

lemma removal_members_updatable: "set removal_members \<subseteq> set boto_update_members"
  by (simp add: removal_members_def boto_update_members_def)

text \<open>
  C7. The update call makes one remote call, \<open>update_trial_component\<close>, whose payload
  holds only fields of the allow-list \<open>_boto_update_members\<close>: the allow-listed fields
  whose value has changed since the record was loaded or created, each with its current
  value, and the removal lists that are populated. The allow-list does not name
  \<open>trial_component_arn\<close>, and in no state of the record, changed arn included, does the
  payload hold it. A record that has not changed sends nothing but its populated removal
  lists.
\<close>

theorem update_sends_changed_allowed_members:
  "snd (snd (snd (update (traced env) loaded self (w, tr))))
     = tr @ [InvokeCall (sagemaker_session self) ''update_trial_component''
               (changed_values boto_update_members loaded self)]
   \<and> dom (changed_values boto_update_members loaded self) \<subseteq> set boto_update_members
   \<and> ''trial_component_arn'' \<notin> dom (changed_values boto_update_members loaded self)
   \<and> ''trial_component_arn'' \<notin> set boto_update_members
   \<and> dom (changed_values boto_update_members loaded self)
     = {k \<in> set boto_update_members. getattr_member k self \<noteq> getattr_member k loaded}
       \<union> {k \<in> set removal_members. \<exists>v. getattr_member k self = Some v \<and> populated v}
   \<and> (\<forall>k v. changed_values boto_update_members loaded self k = Some v
              \<longrightarrow> getattr_member k self = Some v)
   \<and> (\<forall>k. k \<notin> set removal_members
            \<longrightarrow> changed_values boto_update_members self self k = None)"
proof (intro conjI allI impI)
  show "snd (snd (snd (update (traced env) loaded self (w, tr))))
     = tr @ [InvokeCall (sagemaker_session self) ''update_trial_component''
               (changed_values boto_update_members loaded self)]"
    by (simp add: update_def traced_invoke boto_update_method_def)
  show sub: "dom (changed_values boto_update_members loaded self) \<subseteq> set boto_update_members"
    by (rule changed_values_dom)
  show "''trial_component_arn'' \<notin> set boto_update_members"
    by (rule arn_not_updatable)
  with sub show "''trial_component_arn'' \<notin> dom (changed_values boto_update_members loaded self)"
    by blast
  show "dom (changed_values boto_update_members loaded self)
     = {k \<in> set boto_update_members. getattr_member k self \<noteq> getattr_member k loaded}
       \<union> {k \<in> set removal_members. \<exists>v. getattr_member k self = Some v \<and> populated v}"
    unfolding changed_values_sent [of boto_update_members loaded self]
    using updatable_declared [of _ self] removal_members_updatable
    by blast
next
  fix k v
  assume "changed_values boto_update_members loaded self k = Some v"
  then show "getattr_member k self = Some v"
    by (rule changed_values_current)
next
  fix k
  assume "k \<notin> set removal_members"
  then show "changed_values boto_update_members self self k = None"
    by (rule changed_values_untouched)
qed

theorem update_sends_changed_allowed_members_witness:
  "snd (snd (snd (update (traced example_env) loaded_record edited_record (example_store, []))))
     = [InvokeCall example_session ''update_trial_component''
          (changed_values boto_update_members loaded_record edited_record)]
   \<and> ''trial_component_arn'' \<notin> dom (changed_values boto_update_members loaded_record edited_record)
   \<and> trial_component_arn edited_record \<noteq> trial_component_arn loaded_record
   \<and> changed_values boto_update_members loaded_record edited_record ''display_name''
     = Some PyNone
   \<and> changed_values boto_update_members loaded_record edited_record ''status''
     = Some (PyStr ''Completed'')
   \<and> changed_values boto_update_members loaded_record edited_record ''trial_component_name''
     = None
   \<and> changed_values boto_update_members loaded_record edited_record ''parameters_to_remove''
     = Some (PyList [PyStr ''learning_rate''])
   \<and> changed_values boto_update_members loaded_record loaded_record ''display_name'' = None
   \<and> changed_values boto_update_members example_record example_record ''parameters_to_remove''
     = Some (PyList [PyStr ''learning_rate''])"
proof -
  note spec = update_sends_changed_allowed_members
    [where env = example_env and loaded = loaded_record and self = edited_record
       and w = example_store and tr = "[]"]
  have session: "sagemaker_session edited_record = example_session"
    by (simp add: edited_record_def loaded_record_def new_record_def)
  from spec have call:
    "snd (snd (snd (update (traced example_env) loaded_record edited_record
                      (example_store, []))))
     = [InvokeCall example_session ''update_trial_component''
          (changed_values boto_update_members loaded_record edited_record)]"
    by (simp add: session)
  from spec have arn:
    "''trial_component_arn'' \<notin> dom (changed_values boto_update_members loaded_record edited_record)"
    by blast
  have differs: "trial_component_arn edited_record \<noteq> trial_component_arn loaded_record"
    by (simp add: edited_record_def loaded_record_def new_record_def)
  have sent:
    "changed_values boto_update_members loaded_record edited_record ''display_name''
       = Some PyNone"
    "changed_values boto_update_members loaded_record edited_record ''status''
       = Some (PyStr ''Completed'')"
    "changed_values boto_update_members loaded_record edited_record ''trial_component_name''
       = None"
    "changed_values boto_update_members loaded_record edited_record ''parameters_to_remove''
       = Some (PyList [PyStr ''learning_rate''])"
    by (simp_all add: changed_values_def boto_update_members_def removal_members_def
        populated_def getattr_member_def members_def edited_record_def loaded_record_def
        new_record_def)
  have not_removal: "''display_name'' \<notin> set removal_members"
    by (simp add: removal_members_def)
  from update_sends_changed_allowed_members
    [where env = example_env and loaded = loaded_record and self = loaded_record
       and w = example_store and tr = "[]"] not_removal
  have untouched:
    "changed_values boto_update_members loaded_record loaded_record ''display_name'' = None"
    by blast
  have kept:
    "changed_values boto_update_members example_record example_record ''parameters_to_remove''
       = Some (PyList [PyStr ''learning_rate''])"
    by (simp add: changed_values_def boto_update_members_def removal_members_def
        populated_def getattr_member_def members_def example_record_def new_record_def)
  from call arn differs sent untouched kept show ?thesis
    by (intro conjI)
qed

lemma pipeline_execution_arn_frame: "fst (snd (pipeline_execution_arn env self w)) = self"
  by (simp add: pipeline_execution_arn_def split: prod.splits sum.splits)

lemma dataset_artifacts_frame: "fst (snd (dataset_artifacts env direction_arg self w)) = self"
  by (simp add: dataset_artifacts_def split: prod.splits sum.splits)

lemma models_frame: "fst (snd (models env direction_arg self w)) = self"
  by (simp add: models_def split: prod.splits sum.splits)

lemma update_frame: "fst (snd (update env loaded self w)) = self"
  by (simp add: update_def split: prod.splits)

lemma delete_frame: "fst (snd (delete env self w)) = self"
  by (simp add: delete_def split: prod.splits)

text \<open>
  C10. The three query methods \<open>pipeline_execution_arn\<close>, \<open>dataset_artifacts\<close> and
  \<open>models\<close> leave the record as it was: for every state of the record, every direction
  argument and every answer or error of the remote calls, the record after the call
  equals the record before it.
\<close>

theorem queries_leave_record_unchanged:
  "fst (snd (pipeline_execution_arn env self w)) = self
   \<and> fst (snd (dataset_artifacts env direction_arg self w)) = self
   \<and> fst (snd (models env direction_arg self w)) = self"
  by (simp add: pipeline_execution_arn_frame dataset_artifacts_frame models_frame)

section \<open>Loading a record\<close>

lemma load_calls:
  "snd (snd (load (traced env) n (Some s) (w, tr)))
     = tr @ [InvokeCall s ''describe_trial_component'' [''trial_component_name'' \<mapsto> PyStr n]]"
  by (simp add: load_def construct_def traced_invoke boto_load_method_def
      split: prod.splits sum.splits)

lemma load_outcome:
  "invoke env s ''describe_trial_component'' [''trial_component_name'' \<mapsto> PyStr n] w = (r, w')
   \<Longrightarrow> load env n (Some s) w
       = (case r of Inl e \<Rightarrow> Inl e | Inr response \<Rightarrow> Inr (with_boto response (new_record s)), w')"
  by (simp add: load_def construct_def boto_load_method_def split: sum.splits)

lemma with_boto_session: "sagemaker_session (with_boto boto_dict r) = sagemaker_session r"
  by (simp add: with_boto_def)

lemma members_names: "fst ` set (members r) = fst ` set (members r')"
  by (simp add: members_def)

lemma getattr_with_boto:
  "getattr_member k (with_boto d r)
     = (case getattr_member k r of None \<Rightarrow> None | Some old \<Rightarrow> Some (pick d k old))"
  by (simp add: getattr_member_def members_def with_boto_def)

lemma with_boto_populates:
  assumes "d k = Some v" and "k \<in> fst ` set (members r)"
  shows "getattr_member k (with_boto d r) = Some v"
proof -
  from assms(2) obtain old where "getattr_member k r = Some old"
    unfolding getattr_member_def using map_of_eq_None_iff [of "members r" k] by fastforce
  with assms(1) show ?thesis
    by (simp add: getattr_with_boto pick_def)
qed

lemma with_boto_named:
  "named n resource \<Longrightarrow> trial_component_name (with_boto resource r) = PyStr n"
  by (simp add: named_def with_boto_def pick_def)

lemma describe_unauthorized:
  "''describe_trial_component'' \<notin> set (permitted_operations s)
   \<Longrightarrow> describe_trial_component s request store = (Inl Unauthorized, store)"
  by (simp add: describe_trial_component_def)

lemma describe_missing:
  "''describe_trial_component'' \<in> set (permitted_operations s)
   \<Longrightarrow> \<forall>resource\<in>set store. \<not> named n resource
   \<Longrightarrow> describe_trial_component s [''trial_component_name'' \<mapsto> PyStr n] store
       = (Inl NotFound, store)"
proof -
  assume permitted: "''describe_trial_component'' \<in> set (permitted_operations s)"
    and missing: "\<forall>resource\<in>set store. \<not> named n resource"
  from missing have "find (named n) store = None"
    unfolding find_None_iff by blast
  with permitted show ?thesis
    by (simp add: describe_trial_component_def)
qed

lemma describe_found:
  assumes "''describe_trial_component'' \<in> set (permitted_operations s)"
      and "\<exists>resource\<in>set store. named n resource"
  shows "\<exists>resource. resource \<in> set store \<and> named n resource
           \<and> describe_trial_component s [''trial_component_name'' \<mapsto> PyStr n] store
               = (Inr resource, store)"
proof -
  from assms(2) have "find (named n) store \<noteq> None"
    unfolding find_None_iff by blast
  then obtain resource where f: "find (named n) store = Some resource"
    by blast
  then have "resource \<in> set store" "named n resource"
    by (auto simp: find_Some_iff)
  moreover from assms(1) f
  have "describe_trial_component s [''trial_component_name'' \<mapsto> PyStr n] store
          = (Inr resource, store)"
    by (simp add: describe_trial_component_def)
  ultimately show ?thesis by blast
qed

text \<open>
  C8 (amended). For every name \<open>n\<close> and session \<open>s\<close>, \<open>load(n, s)\<close> makes one remote
  call, the describe-operation \<open>describe_trial_component\<close> with \<open>trial_component_name = n\<close>,
  and an error of that call is the error of \<open>load\<close>, unchanged. Against the remote store:
  when \<open>s\<close> is permitted to issue the describe-operation and the store contains a trial
  component named \<open>n\<close>, \<open>load\<close> returns a record bound to \<open>s\<close> whose
  \<open>trial_component_name\<close> is \<open>n\<close> and whose declared fields hold the fields of that
  resource; when \<open>s\<close> is permitted and the store contains no such component, \<open>load\<close>
  raises NotFound; when \<open>s\<close> is not permitted, \<open>load\<close> raises Unauthorized, whether or not
  the store contains \<open>n\<close>.
\<close>

theorem load_describes_resource:
  "snd (snd (load (traced env) n (Some s) (store, tr)))
     = tr @ [InvokeCall s ''describe_trial_component'' [''trial_component_name'' \<mapsto> PyStr n]]
   \<and> (\<forall>e store'.
         invoke env s ''describe_trial_component''
           [''trial_component_name'' \<mapsto> PyStr n] store = (Inl e, store')
         \<longrightarrow> load env n (Some s) store = (Inl e, store'))
   \<and> ((\<forall>caller. invoke env caller ''describe_trial_component''
                   = describe_trial_component caller)
      \<longrightarrow> (''describe_trial_component'' \<in> set (permitted_operations s)
             \<and> (\<exists>resource\<in>set store. named n resource)
           \<longrightarrow> (\<exists>r resource.
                  load env n (Some s) store = (Inr r, store)
                  \<and> resource \<in> set store \<and> named n resource
                  \<and> trial_component_name r = PyStr n
                  \<and> sagemaker_session r = s
                  \<and> (\<forall>k v. resource k = Some v \<and> k \<in> fst ` set (members r)
                            \<longrightarrow> getattr_member k r = Some v)))
        \<and> (''describe_trial_component'' \<in> set (permitted_operations s)
             \<and> (\<forall>resource\<in>set store. \<not> named n resource)
           \<longrightarrow> load env n (Some s) store = (Inl NotFound, store))
        \<and> (''describe_trial_component'' \<notin> set (permitted_operations s)
           \<longrightarrow> load env n (Some s) store = (Inl Unauthorized, store)))"
proof (intro conjI allI impI)
  show "snd (snd (load (traced env) n (Some s) (store, tr)))
     = tr @ [InvokeCall s ''describe_trial_component'' [''trial_component_name'' \<mapsto> PyStr n]]"
    by (rule load_calls)
next
  fix e store'
  assume "invoke env s ''describe_trial_component''
            [''trial_component_name'' \<mapsto> PyStr n] store = (Inl e, store')"
  from load_outcome [OF this] show "load env n (Some s) store = (Inl e, store')"
    by simp
next
  assume transport: "\<forall>caller. invoke env caller ''describe_trial_component''
                               = describe_trial_component caller"
    and h: "''describe_trial_component'' \<in> set (permitted_operations s)
            \<and> (\<exists>resource\<in>set store. named n resource)"
  from h describe_found [of s store n]
  obtain resource where res: "resource \<in> set store" "named n resource"
    and d: "describe_trial_component s [''trial_component_name'' \<mapsto> PyStr n] store
              = (Inr resource, store)"
    by blast
  let ?r = "with_boto resource (new_record s)"
  from transport d
  have "invoke env s ''describe_trial_component'' [''trial_component_name'' \<mapsto> PyStr n] store
          = (Inr resource, store)"
    by simp
  from load_outcome [OF this] have run: "load env n (Some s) store = (Inr ?r, store)"
    by simp
  have name: "trial_component_name ?r = PyStr n"
    using res(2) by (rule with_boto_named)
  have session: "sagemaker_session ?r = s"
    by (simp add: with_boto_session new_record_def)
  have fields: "\<forall>k v. resource k = Some v \<and> k \<in> fst ` set (members ?r)
                      \<longrightarrow> getattr_member k ?r = Some v"
  proof (intro allI impI)
    fix k v
    assume kv: "resource k = Some v \<and> k \<in> fst ` set (members ?r)"
    then have "resource k = Some v" ..
    moreover from kv have "k \<in> fst ` set (members (new_record s))"
      using members_names [of ?r "new_record s"] by blast
    ultimately show "getattr_member k ?r = Some v"
      by (rule with_boto_populates)
  qed
  from run res name session fields
  show "\<exists>r resource.
          load env n (Some s) store = (Inr r, store)
          \<and> resource \<in> set store \<and> named n resource
          \<and> trial_component_name r = PyStr n
          \<and> sagemaker_session r = s
          \<and> (\<forall>k v. resource k = Some v \<and> k \<in> fst ` set (members r)
                    \<longrightarrow> getattr_member k r = Some v)"
    by (intro exI [of _ ?r] exI [of _ resource] conjI)
next
  assume transport: "\<forall>caller. invoke env caller ''describe_trial_component''
                               = describe_trial_component caller"
    and h: "''describe_trial_component'' \<in> set (permitted_operations s)
            \<and> (\<forall>resource\<in>set store. \<not> named n resource)"
  from h have "describe_trial_component s [''trial_component_name'' \<mapsto> PyStr n] store
                 = (Inl NotFound, store)"
    by (simp add: describe_missing)
  with transport
  have "invoke env s ''describe_trial_component'' [''trial_component_name'' \<mapsto> PyStr n] store
          = (Inl NotFound, store)"
    by simp
  from load_outcome [OF this] show "load env n (Some s) store = (Inl NotFound, store)"
    by simp
next
  assume transport: "\<forall>caller. invoke env caller ''describe_trial_component''
                               = describe_trial_component caller"
    and h: "''describe_trial_component'' \<notin> set (permitted_operations s)"
  from h have "describe_trial_component s [''trial_component_name'' \<mapsto> PyStr n] store
                 = (Inl Unauthorized, store)"
    by (rule describe_unauthorized)
  with transport
  have "invoke env s ''describe_trial_component'' [''trial_component_name'' \<mapsto> PyStr n] store
          = (Inl Unauthorized, store)"
    by simp
  from load_outcome [OF this] show "load env n (Some s) store = (Inl Unauthorized, store)"
    by simp
qed

theorem load_unauthorized_counterexample:
  "(\<exists>resource\<in>set example_store. named ''tc-1'' resource)
   \<and> fst (load example_env ''tc-1'' (Some restricted_session) example_store) = Inl Unauthorized"
  by (simp add: example_store_def example_resource_def named_def load_def construct_def
      boto_load_method_def example_env_def describe_trial_component_def restricted_session_def)

lemma display_name_declared: "''display_name'' \<in> fst ` set (members r)"
  by (simp add: members_def)

lemma example_store_named:
  "resource \<in> set example_store \<Longrightarrow> named ''tc-1'' resource \<Longrightarrow> resource = example_resource"
  by (auto simp: example_store_def named_def)

theorem load_describes_resource_witness:
  "(\<exists>r. load example_env ''tc-1'' (Some example_session) example_store = (Inr r, example_store)
       \<and> trial_component_name r = PyStr ''tc-1''
       \<and> sagemaker_session r = example_session
       \<and> getattr_member ''display_name'' r = Some (PyStr ''Training''))
   \<and> load example_env ''tc-2'' (Some example_session) example_store
     = (Inl NotFound, example_store)
   \<and> load example_env ''tc-1'' (Some restricted_session) example_store
     = (Inl Unauthorized, example_store)
   \<and> snd (snd (load (traced example_env) ''tc-1'' (Some restricted_session)
                  (example_store, [])))
     = [InvokeCall restricted_session ''describe_trial_component''
          [''trial_component_name'' \<mapsto> PyStr ''tc-1'']]"
proof -
  have transport:
    "\<forall>caller. invoke example_env caller ''describe_trial_component''
               = describe_trial_component caller"
    by (simp add: example_env_def)
  have permitted: "''describe_trial_component'' \<in> set (permitted_operations example_session)"
    by (simp add: example_session_def)
  have refused: "''describe_trial_component'' \<notin> set (permitted_operations restricted_session)"
    by (simp add: restricted_session_def)
  have held: "\<exists>resource\<in>set example_store. named ''tc-1'' resource"
    by (simp add: example_store_def example_resource_def named_def)
  have absent: "\<forall>resource\<in>set example_store. \<not> named ''tc-2'' resource"
    by (simp add: example_store_def example_resource_def named_def)
  from load_describes_resource
    [where env = example_env and store = example_store and tr = "[]"
       and n = "''tc-1''" and s = example_session,
     THEN conjunct2, THEN conjunct2, THEN mp, OF transport,
     THEN conjunct1, THEN mp, OF conjI [OF permitted held]]
  obtain r resource where r:
      "load example_env ''tc-1'' (Some example_session) example_store = (Inr r, example_store)"
      "resource \<in> set example_store" "named ''tc-1'' resource"
      "trial_component_name r = PyStr ''tc-1''"
      "sagemaker_session r = example_session"
      "\<forall>k v. resource k = Some v \<and> k \<in> fst ` set (members r)
              \<longrightarrow> getattr_member k r = Some v"
    by (elim exE conjE)
  from r(2,3) have "resource = example_resource"
    by (rule example_store_named)
  then have "resource ''display_name'' = Some (PyStr ''Training'')"
    by (simp add: example_resource_def)
  with r(6) display_name_declared [of r]
  have display: "getattr_member ''display_name'' r = Some (PyStr ''Training'')"
    by blast
  from load_describes_resource
    [where env = example_env and store = example_store and tr = "[]"
       and n = "''tc-2''" and s = example_session,
     THEN conjunct2, THEN conjunct2, THEN mp, OF transport,
     THEN conjunct2, THEN conjunct1, THEN mp, OF conjI [OF permitted absent]]
  have second: "load example_env ''tc-2'' (Some example_session) example_store
                  = (Inl NotFound, example_store)" .
  from load_describes_resource
    [where env = example_env and store = example_store and tr = "[]"
       and n = "''tc-1''" and s = restricted_session,
     THEN conjunct2, THEN conjunct2, THEN mp, OF transport,
     THEN conjunct2, THEN conjunct2, THEN mp, OF refused]
  have third: "load example_env ''tc-1'' (Some restricted_session) example_store
                 = (Inl Unauthorized, example_store)" .
  from load_describes_resource
    [where env = example_env and n = "''tc-1''" and s = restricted_session
       and store = example_store and tr = "[]", THEN conjunct1]
  have fourth: "snd (snd (load (traced example_env) ''tc-1'' (Some restricted_session)
                       (example_store, [])))
     = [InvokeCall restricted_session ''describe_trial_component''
          [''trial_component_name'' \<mapsto> PyStr ''tc-1'']]"
    by simp
  from r(1,4,5) display second third fourth show ?thesis
    by (intro conjI exI [of _ r])
qed

section \<open>The identity fields\<close>

lemma setattr_other_name:
  "k \<noteq> ''trial_component_name'' \<Longrightarrow>
   trial_component_name (setattr_member k v self) = trial_component_name self"
  unfolding setattr_member_def by (simp split: if_splits)

lemma setattr_other_arn:
  "k \<noteq> ''trial_component_arn'' \<Longrightarrow>
   trial_component_arn (setattr_member k v self) = trial_component_arn self"
  unfolding setattr_member_def by (simp split: if_splits)

lemma setattr_name: "trial_component_name (setattr_member ''trial_component_name'' v self) = v"
  by (simp add: setattr_member_def)

lemma setattr_arn: "trial_component_arn (setattr_member ''trial_component_arn'' v self) = v"
  by (simp add: setattr_member_def)

text \<open>
  C9 (amended). Once a record has been loaded or created, no operation of the record
  (\<open>pipeline_execution_arn\<close>, \<open>dataset_artifacts\<close>, \<open>models\<close>, update, delete) changes its
  \<open>trial_component_name\<close> or its \<open>trial_component_arn\<close>, and a local assignment to any
  other attribute leaves both as they are. The type does permit a local reassignment of
  the two fields themselves: an assignment to either one sets it, as it does for every
  other attribute.
\<close>

theorem identity_fields_kept:
  "trial_component_name (fst (snd (pipeline_execution_arn env self w)))
     = trial_component_name self
   \<and> trial_component_arn (fst (snd (pipeline_execution_arn env self w)))
     = trial_component_arn self
   \<and> trial_component_name (fst (snd (dataset_artifacts env direction_arg self w)))
     = trial_component_name self
   \<and> trial_component_arn (fst (snd (dataset_artifacts env direction_arg self w)))
     = trial_component_arn self
   \<and> trial_component_name (fst (snd (models env direction_arg self w)))
     = trial_component_name self
   \<and> trial_component_arn (fst (snd (models env direction_arg self w)))
     = trial_component_arn self
   \<and> trial_component_name (fst (snd (update env loaded self w)))
     = trial_component_name self
   \<and> trial_component_arn (fst (snd (update env loaded self w)))
     = trial_component_arn self
   \<and> trial_component_name (fst (snd (delete env self w)))
     = trial_component_name self
   \<and> trial_component_arn (fst (snd (delete env self w)))
     = trial_component_arn self
   \<and> (k \<noteq> ''trial_component_name'' \<and> k \<noteq> ''trial_component_arn''
      \<longrightarrow> trial_component_name (setattr_member k v self) = trial_component_name self
        \<and> trial_component_arn (setattr_member k v self) = trial_component_arn self)
   \<and> trial_component_name (setattr_member ''trial_component_name'' v self) = v
   \<and> trial_component_arn (setattr_member ''trial_component_arn'' v self) = v"
  using setattr_other_name [of k v self] setattr_other_arn [of k v self]
  by (simp add: pipeline_execution_arn_frame dataset_artifacts_frame models_frame
      update_frame delete_frame setattr_name setattr_arn)

theorem identity_fields_kept_witness:
  "trial_component_name (setattr_member ''display_name'' (PyStr ''Renamed'') example_record)
     = PyStr ''tc-1''
   \<and> trial_component_arn (setattr_member ''display_name'' (PyStr ''Renamed'') example_record)
     = PyStr ''arn:tc-1''
   \<and> trial_component_arn (fst (snd (models example_env None example_record example_store)))
     = PyStr ''arn:tc-1''
   \<and> trial_component_arn
       (fst (snd (update example_env example_record example_record example_store)))
     = PyStr ''arn:tc-1''
   \<and> trial_component_name (fst (snd (delete example_env example_record example_store)))
     = PyStr ''tc-1''"
proof -
  have fields: "trial_component_name example_record = PyStr ''tc-1''"
    "trial_component_arn example_record = PyStr ''arn:tc-1''"
    by (simp_all add: example_record_def new_record_def)
  have k: "''display_name'' \<noteq> ''trial_component_name''
           \<and> ''display_name'' \<noteq> ''trial_component_arn''"
    by simp
  from identity_fields_kept
    [where env = example_env and self = example_record and w = example_store
       and loaded = example_record
       and direction_arg = None and k = "''display_name''" and v = "PyStr ''Renamed''"] k
  have "trial_component_name
          (setattr_member ''display_name'' (PyStr ''Renamed'') example_record)
        = trial_component_name example_record"
    and "trial_component_arn
          (setattr_member ''display_name'' (PyStr ''Renamed'') example_record)
        = trial_component_arn example_record"
    and "trial_component_arn (fst (snd (models example_env None example_record example_store)))
        = trial_component_arn example_record"
    and "trial_component_arn
          (fst (snd (update example_env example_record example_record example_store)))
        = trial_component_arn example_record"
    and "trial_component_name (fst (snd (delete example_env example_record example_store)))
        = trial_component_name example_record"
    by blast+
  with fields show ?thesis by simp
qed

theorem identity_fields_not_guarded_counterexample:
  "trial_component_name example_record = PyStr ''tc-1''
   \<and> trial_component_name
       (setattr_member ''trial_component_name'' (PyStr ''renamed'') example_record)
     = PyStr ''renamed''
   \<and> trial_component_arn example_record = PyStr ''arn:tc-1''
   \<and> trial_component_arn (setattr_member ''trial_component_arn'' PyNone example_record)
     = PyNone"
  by (simp add: example_record_def new_record_def setattr_member_def)

end
